theory Spec2Isabelle
  imports Main
begin

section \<open>Values exchanged by the layers\<close>

text \<open>
  JavaScript values that cross a service boundary are plain objects. An object is an
  association list from property names to values, in insertion order; a \<open>Date\<close> is
  the instant it denotes, in milliseconds since the epoch.
\<close>

datatype json =
    JNull
  | JBool bool
  | JNum int
  | JStr string
  | JDate int
  | JArr "json list"
  | JObj "(string \<times> json) list"

text \<open>All property names of a value, at any depth.\<close>

fun keys_of :: "json \<Rightarrow> string list" where
  "keys_of (JObj kvs) = concat (map (\<lambda>(k, v). k # keys_of v) kvs)"
| "keys_of (JArr xs) = concat (map keys_of xs)"
| "keys_of _ = []"

text \<open>JavaScript truthiness, as used by \<open>if (sanitized[field])\<close>.\<close>

fun truthy :: "json \<Rightarrow> bool" where
  "truthy JNull = False"
| "truthy (JBool b) = b"
| "truthy (JNum n) = (n \<noteq> 0)"
| "truthy (JStr s) = (s \<noteq> [])"
| "truthy _ = True"

text \<open>
  A thrown \<open>Error\<close>: its message and its optional \<open>code\<close> property.
  \<open>new Error(m)\<close> has no code.
\<close>

datatype js_error = JsError (message: string) (code: "string option")

definition Error :: "string \<Rightarrow> js_error" where
  "Error m = JsError m None"

text \<open>
  What a call does when it is awaited: it returns a value or it rejects with an error
  that travels on to the caller.
\<close>

datatype 'a outcome = Returned 'a | Threw js_error

text \<open>The envelope \<open>{ success, data }\<close> or \<open>{ success, error }\<close> of \<open>executeOperation\<close>.\<close>

datatype result = Success json | Failure json

definition response_json :: "result \<Rightarrow> json" where
  "response_json res =
     (case res of
        Success d \<Rightarrow> JObj [(''success'', JBool True), (''data'', d)]
      | Failure e \<Rightarrow> JObj [(''success'', JBool False), (''error'', e)])"

text \<open>\<open>String.prototype.toLowerCase\<close> on the ASCII letters.\<close>

definition lower_char :: "char \<Rightarrow> char" where
  "lower_char c =
     (case map_of (zip ''ABCDEFGHIJKLMNOPQRSTUVWXYZ'' ''abcdefghijklmnopqrstuvwxyz'') c of
        Some d \<Rightarrow> d
      | None \<Rightarrow> c)"

definition toLowerCase :: "string \<Rightarrow> string" where
  "toLowerCase s = map lower_char s"

text \<open>\<open>String.prototype.trim\<close> on the ASCII white space.\<close>

definition is_space :: "char \<Rightarrow> bool" where
  "is_space c = (c \<in> set [CHR '' '', CHR 0x09, CHR 0x0A, CHR 0x0B, CHR 0x0C, CHR 0x0D])"

definition trim :: "string \<Rightarrow> string" where
  "trim s = rev (dropWhile is_space (rev (dropWhile is_space s)))"

section \<open>Environment and external libraries\<close>

text \<open>
  \<open>process.env\<close>: a variable is unset (\<open>None\<close>) or a string. \<open>BCRYPT_ROUNDS\<close> is
  kept as the integer \<open>parseInt\<close> reads from it (\<open>None\<close> when unset or not a number).
\<close>

record env =
  JWT_SECRET :: "string option"
  JWT_EXPIRES_IN :: "string option"
  BCRYPT_ROUNDS :: "int option"

text \<open>The payload object handed to \<open>jwt.sign\<close> and returned by \<open>jwt.verify\<close>.\<close>

record jwt_payload =
  userId :: string
  emailClaim :: string
  roleClaim :: string
  iat :: "int option"
  exp :: "int option"

record sign_options =
  expiresIn :: "string option"
  algorithm :: "string option"

text \<open>
  The npm packages the services call (joi, bcryptjs, jsonwebtoken) are not part of the
  repository. They are parameters of the model: every theorem below that mentions
  \<open>L\<close> holds for all behaviours of these functions.
  \<^item> \<open>joi_email\<close>: whether \<open>Joi.string().email()\<close> accepts the string;
  \<^item> \<open>bcrypt_hash\<close>: \<open>bcrypt.hash(password, rounds)\<close>;
  \<^item> \<open>bcrypt_compare\<close>: \<open>bcrypt.compare(password, hash)\<close>;
  \<^item> \<open>jwt_sign\<close>: \<open>jwt.sign(payload, secret, options)\<close>, which returns the token
    or throws;
  \<^item> \<open>jwt_verify\<close>: \<open>jwt.verify(token, secret, { algorithms })\<close> at the given clock
    reading, which returns the decoded payload or throws.
\<close>

record libs =
  joi_email :: "string \<Rightarrow> bool"
  bcrypt_hash :: "string \<Rightarrow> int \<Rightarrow> string"
  bcrypt_compare :: "string \<Rightarrow> string \<Rightarrow> bool"
  jwt_sign :: "jwt_payload \<Rightarrow> string \<Rightarrow> sign_options \<Rightarrow> js_error + string"
  jwt_verify :: "string \<Rightarrow> string \<Rightarrow> string list \<Rightarrow> int \<Rightarrow> js_error + jwt_payload"

section \<open>Entities: BaseEntity and User\<close>

text \<open>
  The private fields of \<open>BaseEntity\<close> and \<open>User\<close>. The field \<open>id\<close> is written
  \<open>id'\<close>.
\<close>

record user =
  id' :: string
  createdAt :: int
  updatedAt :: int
  isActive :: bool
  email :: string
  password :: string
  firstName :: string
  lastName :: string
  role :: string
  isEmailVerified :: bool
  lastLoginAt :: "int option"

text \<open>
  \<open>new User(data)\<close> for a \<open>data\<close> without id, dates and \<open>isActive\<close>: the id is the
  fresh \<open>uuidv4()\<close> value \<open>newId\<close>, both dates are the current time, the entity is
  active. \<open>data.role || 'user'\<close> and \<open>data.isEmailVerified || false\<close> give the defaults.
\<close>

definition new_User ::
  "string \<Rightarrow> int \<Rightarrow> string \<Rightarrow> string \<Rightarrow> string \<Rightarrow> string \<Rightarrow> string option \<Rightarrow> bool \<Rightarrow> user" where
  "new_User newId now em pw fn ln rl verified =
     \<lparr> id' = newId, createdAt = now, updatedAt = now, isActive = True,
       email = em, password = pw, firstName = fn, lastName = ln,
       role = (case rl of None \<Rightarrow> ''user'' | Some x \<Rightarrow> if x = [] then ''user'' else x),
       isEmailVerified = verified, lastLoginAt = None \<rparr>"

definition touch :: "user \<Rightarrow> int \<Rightarrow> user" where
  "touch u now = u\<lparr>updatedAt := now\<rparr>"

definition updateLastLogin :: "user \<Rightarrow> int \<Rightarrow> user" where
  "updateLastLogin u now = touch (u\<lparr>lastLoginAt := Some now\<rparr>) now"

definition valid_role :: "string \<Rightarrow> bool" where
  "valid_role x = (x \<in> set [''user'', ''admin'', ''moderator''])"

definition name_ok :: "string \<Rightarrow> bool" where
  "name_ok s = (2 \<le> length s \<and> length s \<le> 50)"

text \<open>\<open>User.validate()\<close>: the Joi schema applied to the entity's own fields.\<close>

definition validate :: "libs \<Rightarrow> user \<Rightarrow> bool" where
  "validate L u =
     (joi_email L (email u) \<and> 8 \<le> length (password u) \<and>
      name_ok (firstName u) \<and> name_ok (lastName u) \<and> valid_role (role u))"

definition getFullName :: "user \<Rightarrow> string" where
  "getFullName u = trim (firstName u @ '' '' @ lastName u)"

text \<open>\<open>toPublicJSON()\<close>: the properties of the object literal it returns, in order.\<close>

definition toPublicJSON :: "user \<Rightarrow> (string \<times> json) list" where
  "toPublicJSON u =
     [(''email'', JStr (email u)),
      (''firstName'', JStr (firstName u)),
      (''lastName'', JStr (lastName u)),
      (''role'', JStr (role u)),
      (''isEmailVerified'', JBool (isEmailVerified u)),
      (''lastLoginAt'', (case lastLoginAt u of None \<Rightarrow> JNull | Some t \<Rightarrow> JDate t)),
      (''fullName'', JStr (getFullName u))]"

section \<open>InMemoryUserRepository\<close>

text \<open>
  The two maps of the repository: \<open>_users\<close> from id to entity and \<open>_emailIndex\<close>
  from lower-cased email to id. An entity is identified with the entry of \<open>_users\<close>
  that holds it, under its own id (every insertion uses \<open>user.id\<close> as the key and no
  method changes an id), so a method that mutates a \<open>User\<close> it got from the
  repository rewrites that entry.
\<close>

record repo =
  users :: "string \<rightharpoonup> user"
  emailIndex :: "string \<rightharpoonup> string"

definition clear :: repo where
  "clear = \<lparr> users = Map.empty, emailIndex = Map.empty \<rparr>"

definition sample_hash :: string where
  "sample_hash = ''$2b$12$LQv3c1yqBWVHxkd0LHAkCOYz6TtxMQJqhN8/LewdBPj4J/HS.iK6e''"

definition store_sample :: "repo \<Rightarrow> user \<Rightarrow> repo" where
  "store_sample r u =
     \<lparr> users = (users r)(id' u \<mapsto> u),
       emailIndex = (emailIndex r)(toLowerCase (email u) \<mapsto> id' u) \<rparr>"

text \<open>
  \<open>initializeSampleData()\<close>, run by the constructor: the two seeded accounts, with
  the ids \<open>uuidv4()\<close> returned for them.
\<close>

definition initializeSampleData :: "string \<Rightarrow> string \<Rightarrow> int \<Rightarrow> repo" where
  "initializeSampleData id1 id2 now =
     store_sample
       (store_sample clear
          (new_User id1 now ''admin@example.com'' sample_hash ''Admin'' ''User''
             (Some ''admin'') True))
       (new_User id2 now ''user@example.com'' sample_hash ''Regular'' ''User''
          (Some ''user'') True)"

definition findById :: "repo \<Rightarrow> string \<Rightarrow> user option" where
  "findById r i = users r i"

text \<open>\<open>userId ? this._users.get(userId) : null\<close>: an empty id is falsy.\<close>

definition findByEmail :: "repo \<Rightarrow> string \<Rightarrow> user option" where
  "findByEmail r em =
     (case emailIndex r (toLowerCase em) of
        None \<Rightarrow> None
      | Some i \<Rightarrow> if i = [] then None else users r i)"

definition create :: "libs \<Rightarrow> repo \<Rightarrow> user \<Rightarrow> (js_error + user) \<times> repo" where
  "create L r u =
     (if \<not> validate L u then (Inl (Error ''Invalid user data''), r)
      else case findByEmail r (email u) of
        Some existing \<Rightarrow> (Inl (Error ''User with this email already exists''), r)
      | None \<Rightarrow>
          (Inr u,
           \<lparr> users = (users r)(id' u \<mapsto> u),
             emailIndex = (emailIndex r)(toLowerCase (email u) \<mapsto> id' u) \<rparr>))"

text \<open>
  The \<open>updates\<close> object of \<open>update(id, updates)\<close>, for the string properties for
  which \<open>User\<close> has a setter; an absent key is \<open>None\<close>. Every setter stores the
  value and calls \<open>touch()\<close>.
\<close>

record updates =
  upd_email :: "string option"
  upd_password :: "string option"
  upd_firstName :: "string option"
  upd_lastName :: "string option"
  upd_role :: "string option"

definition no_updates :: updates where
  "no_updates = \<lparr> upd_email = None, upd_password = None, upd_firstName = None,
                  upd_lastName = None, upd_role = None \<rparr>"

definition assign_updates :: "user \<Rightarrow> updates \<Rightarrow> int \<Rightarrow> user" where
  "assign_updates u upd now =
     (let u1 = (case upd_email upd of None \<Rightarrow> u | Some v \<Rightarrow> touch (u\<lparr>email := v\<rparr>) now);
          u2 = (case upd_password upd of None \<Rightarrow> u1 | Some v \<Rightarrow> touch (u1\<lparr>password := v\<rparr>) now);
          u3 = (case upd_firstName upd of None \<Rightarrow> u2 | Some v \<Rightarrow> touch (u2\<lparr>firstName := v\<rparr>) now);
          u4 = (case upd_lastName upd of None \<Rightarrow> u3 | Some v \<Rightarrow> touch (u3\<lparr>lastName := v\<rparr>) now)
      in (case upd_role upd of None \<Rightarrow> u4 | Some v \<Rightarrow> touch (u4\<lparr>role := v\<rparr>) now))"

text \<open>
  \<open>update\<close>: the properties are assigned first; the test
  \<open>updates.email && updates.email !== user.email\<close> that guards the index update
  then reads the entity after the assignment.
\<close>

definition update :: "repo \<Rightarrow> string \<Rightarrow> updates \<Rightarrow> int \<Rightarrow> user option \<times> repo" where
  "update r i upd now =
     (case findById r i of
        None \<Rightarrow> (None, r)
      | Some u \<Rightarrow>
          (let u1 = assign_updates u upd now;
               idx = (case upd_email upd of
                        None \<Rightarrow> emailIndex r
                      | Some e \<Rightarrow>
                          if e \<noteq> [] \<and> e \<noteq> email u1
                          then ((emailIndex r)(toLowerCase (email u1) := None))
                                 (toLowerCase e \<mapsto> id' u1)
                          else emailIndex r);
               u2 = touch u1 now
           in (Some u2, \<lparr> users = (users r)(i \<mapsto> u2), emailIndex = idx \<rparr>)))"

definition delete :: "repo \<Rightarrow> string \<Rightarrow> bool \<times> repo" where
  "delete r i =
     (case findById r i of
        None \<Rightarrow> (False, r)
      | Some u \<Rightarrow>
          (True,
           \<lparr> users = (users r)(i := None),
             emailIndex = (emailIndex r)(toLowerCase (email u) := None) \<rparr>))"

section \<open>BaseService\<close>

text \<open>
  \<open>handleError\<close>: \<open>error.message || ...\<close>, \<open>error.code || 'INTERNAL_ERROR'\<close> and
  the time of the call, whose ISO string is kept as the instant it denotes.
\<close>

definition handleError :: "js_error \<Rightarrow> int \<Rightarrow> json" where
  "handleError e now =
     JObj [(''message'',
              JStr (if message e = [] then ''An unexpected error occurred'' else message e)),
           (''code'',
              JStr (case code e of
                      None \<Rightarrow> ''INTERNAL_ERROR''
                    | Some c \<Rightarrow> if c = [] then ''INTERNAL_ERROR'' else c)),
           (''timestamp'', JDate now)]"

text \<open>
  \<open>executeOperation\<close>: the \<open>try\<close> block returns the success envelope, the
  \<open>catch\<close> block the failure envelope. The argument is what the awaited operation
  did. The logger calls are left out.
\<close>

definition executeOperation :: "js_error + json \<Rightarrow> int \<Rightarrow> result outcome" where
  "executeOperation r now =
     (case r of
        Inr d \<Rightarrow> Returned (Success d)
      | Inl e \<Rightarrow> Returned (Failure (handleError e now)))"

definition sensitiveFields :: "string list" where
  "sensitiveFields = [''password'', ''token'', ''secret'', ''key'']"

text \<open>
  \<open>sanitizeOutput\<close> on a plain object, which is what the services pass to it (the
  public projection of a user): the copy without the sensitive properties whose value
  is truthy.
\<close>

definition sanitizeOutput :: "(string \<times> json) list \<Rightarrow> (string \<times> json) list" where
  "sanitizeOutput data =
     filter (\<lambda>(k, v). \<not> (k \<in> set sensitiveFields \<and> truthy v)) data"

section \<open>AuthenticationService\<close>

definition missing :: "string option \<Rightarrow> bool" where
  "missing s = (case s of None \<Rightarrow> True | Some x \<Rightarrow> x = [])"

definition expires_in :: "env \<Rightarrow> string" where
  "expires_in E = (case JWT_EXPIRES_IN E of None \<Rightarrow> ''24h'' | Some x \<Rightarrow> if x = [] then ''24h'' else x)"

definition secret_required :: js_error where
  "secret_required = Error ''JWT_SECRET environment variable is required''"

text \<open>
  \<open>generateToken\<close>: the payload carries \<open>iat\<close> and \<open>exp = iat + 24h\<close> in seconds; the
  call to \<open>jwt.sign\<close> also passes \<open>expiresIn\<close> and the algorithm.
\<close>

definition generateToken :: "libs \<Rightarrow> env \<Rightarrow> user \<Rightarrow> int \<Rightarrow> js_error + string" where
  "generateToken L E u now =
     (let payload = \<lparr> userId = id' u, emailClaim = email u, roleClaim = role u,
                       iat = Some (now div 1000),
                       exp = Some (now div 1000 + 60 * 60 * 24) \<rparr>
      in case JWT_SECRET E of
           None \<Rightarrow> Inl secret_required
         | Some secret \<Rightarrow>
             if secret = [] then Inl secret_required
             else jwt_sign L payload secret
                    \<lparr> expiresIn = Some (expires_in E), algorithm = Some ''HS256'' \<rparr>)"

definition verifyToken :: "libs \<Rightarrow> env \<Rightarrow> string \<Rightarrow> int \<Rightarrow> js_error + jwt_payload" where
  "verifyToken L E tok now =
     (case JWT_SECRET E of
        None \<Rightarrow> Inl secret_required
      | Some secret \<Rightarrow>
          if secret = [] then Inl secret_required
          else jwt_verify L tok secret [''HS256''] now)"

definition hashPassword :: "libs \<Rightarrow> env \<Rightarrow> string \<Rightarrow> string" where
  "hashPassword L E pw =
     bcrypt_hash L pw
       (case BCRYPT_ROUNDS E of None \<Rightarrow> 12 | Some n \<Rightarrow> if n = 0 then 12 else n)"

definition comparePassword :: "libs \<Rightarrow> string \<Rightarrow> string \<Rightarrow> bool" where
  "comparePassword L pw h = bcrypt_compare L pw h"

definition auth_result :: "env \<Rightarrow> user \<Rightarrow> string \<Rightarrow> json" where
  "auth_result E u tok =
     JObj [(''user'', JObj (sanitizeOutput (toPublicJSON u))),
           (''token'', JStr tok),
           (''expiresIn'', JStr (expires_in E))]"

definition invalid_credentials :: js_error where
  "invalid_credentials = Error ''Invalid credentials''"

definition localStrategy ::
  "libs \<Rightarrow> env \<Rightarrow> repo \<Rightarrow> string \<Rightarrow> string \<Rightarrow> int \<Rightarrow> (js_error + json) \<times> repo" where
  "localStrategy L E r em pw now =
     (case findByEmail r em of
        None \<Rightarrow> (Inl invalid_credentials, r)
      | Some u \<Rightarrow>
          if \<not> isActive u then (Inl invalid_credentials, r)
          else if \<not> comparePassword L pw (password u) then (Inl invalid_credentials, r)
          else
            (let u' = updateLastLogin u now;
                 r' = r\<lparr>users := (users r)(id' u \<mapsto> u')\<rparr>
             in case generateToken L E u' now of
                  Inl e \<Rightarrow> (Inl e, r')
                | Inr tok \<Rightarrow> (Inr (auth_result E u' tok), r')))"

definition invalid_input :: js_error where
  "invalid_input = Error ''Invalid input data''"

text \<open>The login schema: a valid email and a password of at least 8 characters.\<close>

definition login_valid :: "libs \<Rightarrow> string \<Rightarrow> string \<Rightarrow> bool" where
  "login_valid L em pw = (joi_email L em \<and> 8 \<le> length pw)"

definition authenticate ::
  "libs \<Rightarrow> env \<Rightarrow> repo \<Rightarrow> string \<Rightarrow> string \<Rightarrow> int \<Rightarrow> result outcome \<times> repo" where
  "authenticate L E r em pw now =
     (let (res, r') =
            (if \<not> login_valid L em pw then (Inl invalid_input, r)
             else localStrategy L E r em pw now)
      in (executeOperation res now, r'))"

text \<open>The registration data: the role is optional and defaults to \<open>user\<close>.\<close>

record profile =
  reg_email :: string
  reg_password :: string
  reg_firstName :: string
  reg_lastName :: string
  reg_role :: "string option"

definition register_valid :: "libs \<Rightarrow> profile \<Rightarrow> bool" where
  "register_valid L p =
     (joi_email L (reg_email p) \<and> 8 \<le> length (reg_password p) \<and>
      name_ok (reg_firstName p) \<and> name_ok (reg_lastName p) \<and>
      (case reg_role p of None \<Rightarrow> True | Some x \<Rightarrow> valid_role x))"

definition register_body ::
  "libs \<Rightarrow> env \<Rightarrow> repo \<Rightarrow> profile \<Rightarrow> string \<Rightarrow> int \<Rightarrow> (js_error + json) \<times> repo" where
  "register_body L E r p newId now =
     (if \<not> register_valid L p then (Inl invalid_input, r)
      else
        (let hashedPassword = hashPassword L E (reg_password p);
             u = new_User newId now (reg_email p) hashedPassword (reg_firstName p)
                   (reg_lastName p)
                   (Some (case reg_role p of None \<Rightarrow> ''user'' | Some x \<Rightarrow> x)) False
         in case create L r u of
              (Inl e, r') \<Rightarrow> (Inl e, r')
            | (Inr savedUser, r') \<Rightarrow>
                (case generateToken L E savedUser now of
                   Inl e \<Rightarrow> (Inl e, r')
                 | Inr tok \<Rightarrow> (Inr (auth_result E savedUser tok), r'))))"

definition register ::
  "libs \<Rightarrow> env \<Rightarrow> repo \<Rightarrow> profile \<Rightarrow> string \<Rightarrow> int \<Rightarrow> result outcome \<times> repo" where
  "register L E r p newId now =
     (let (res, r') = register_body L E r p newId now
      in (executeOperation res now, r'))"

definition invalid_token :: js_error where
  "invalid_token = Error ''Invalid token''"

definition refresh_body ::
  "libs \<Rightarrow> env \<Rightarrow> repo \<Rightarrow> string \<Rightarrow> int \<Rightarrow> js_error + json" where
  "refresh_body L E r tok now =
     (case verifyToken L E tok now of
        Inl e \<Rightarrow> Inl e
      | Inr decoded \<Rightarrow>
          (case findById r (userId decoded) of
             None \<Rightarrow> Inl invalid_token
           | Some u \<Rightarrow>
               if \<not> isActive u then Inl invalid_token
               else (case generateToken L E u now of
                       Inl e \<Rightarrow> Inl e
                     | Inr newToken \<Rightarrow> Inr (auth_result E u newToken))))"

definition refreshToken ::
  "libs \<Rightarrow> env \<Rightarrow> repo \<Rightarrow> string \<Rightarrow> int \<Rightarrow> result outcome \<times> repo" where
  "refreshToken L E r tok now = (executeOperation (refresh_body L E r tok now) now, r)"

section \<open>AuthenticationMiddleware\<close>

text \<open>A middleware either calls \<open>next()\<close> or answers with a status and a JSON body.\<close>

datatype response = Next | Respond nat json

definition error_body :: "(string \<times> json) list \<Rightarrow> json" where
  "error_body kvs = JObj [(''success'', JBool False), (''error'', JObj kvs)]"

definition authentication_required :: response where
  "authentication_required =
     Respond 401 (error_body [(''message'', JStr ''Authentication required''),
                              (''code'', JStr ''AUTHENTICATION_REQUIRED'')])"

definition insufficient_permissions :: "string list \<Rightarrow> string \<Rightarrow> response" where
  "insufficient_permissions roles actual =
     Respond 403 (error_body [(''message'', JStr ''Insufficient permissions''),
                              (''code'', JStr ''INSUFFICIENT_PERMISSIONS''),
                              (''requiredRoles'', JArr (map JStr roles)),
                              (''userRole'', JStr actual)])"

text \<open>\<open>requireRoles(...roles)\<close> applied to \<open>req.user\<close>.\<close>

definition requireRoles :: "string list \<Rightarrow> user option \<Rightarrow> response" where
  "requireRoles roles req_user =
     (case req_user of
        None \<Rightarrow> authentication_required
      | Some u \<Rightarrow>
          if role u \<notin> set roles then insufficient_permissions roles (role u)
          else Next)"

definition requireAdmin :: "user option \<Rightarrow> response" where
  "requireAdmin = requireRoles [''admin'']"

definition requireModerator :: "user option \<Rightarrow> response" where
  "requireModerator = requireRoles [''moderator'', ''admin'']"

text \<open>
  \<open>authRateLimit(rateLimitOptions)\<close>: the options with their defaults, the map
  \<open>attempts\<close> from \<open>req.ip\<close> to the recorded timestamps, and one request at time
  \<open>now\<close>. \<open>Math.ceil(windowMs / 1000)\<close> is written with integer division.
\<close>

record rateLimitOptions =
  opt_windowMs :: "int option"
  opt_max :: "int option"

definition windowMs_of :: "rateLimitOptions \<Rightarrow> int" where
  "windowMs_of opts = (case opt_windowMs opts of None \<Rightarrow> 15 * 60 * 1000 | Some w \<Rightarrow> w)"

definition max_of :: "rateLimitOptions \<Rightarrow> int" where
  "max_of opts = (case opt_max opts of None \<Rightarrow> 5 | Some m \<Rightarrow> m)"

definition rate_limit_exceeded :: "int \<Rightarrow> response" where
  "rate_limit_exceeded windowMs =
     Respond 429 (error_body [(''message'', JStr ''Too many authentication attempts''),
                              (''code'', JStr ''RATE_LIMIT_EXCEEDED''),
                              (''retryAfter'', JNum (- ((- windowMs) div 1000)))])"

definition authRateLimit ::
  "rateLimitOptions \<Rightarrow> (string \<rightharpoonup> int list) \<Rightarrow> string \<Rightarrow> int
     \<Rightarrow> response \<times> (string \<rightharpoonup> int list)" where
  "authRateLimit opts attempts ip now =
     (let windowStart = now - windowMs_of opts;
          currentAttempts =
            (case attempts ip of
               Some ts \<Rightarrow> filter (\<lambda>timestamp. timestamp > windowStart) ts
             | None \<Rightarrow> [])
      in if int (length currentAttempts) \<ge> max_of opts
         then (rate_limit_exceeded (windowMs_of opts), attempts(ip \<mapsto> currentAttempts))
         else (Next, attempts(ip \<mapsto> currentAttempts @ [now])))"

text \<open>A run of requests from one address, oldest first.\<close>

fun attempts_from ::
  "rateLimitOptions \<Rightarrow> (string \<rightharpoonup> int list) \<Rightarrow> string \<Rightarrow> int list
     \<Rightarrow> response list \<times> (string \<rightharpoonup> int list)" where
  "attempts_from opts attempts ip [] = ([], attempts)"
| "attempts_from opts attempts ip (t # ts) =
     (let (resp, attempts1) = authRateLimit opts attempts ip t;
          (resps, attempts2) = attempts_from opts attempts1 ip ts
      in (resp # resps, attempts2))"

section \<open>The libraries on examples\<close>

text \<open>
  jsonwebtoken documents that \<open>exp\<close> may be given in the payload or through
  \<open>options.expiresIn\<close>, but not in both places; \<open>sign\<close> throws when both are there.
  For a non-empty string secret and an object payload this is the first check that can
  fail. The encoding and signing of an accepted payload stay a parameter, \<open>jws\<close>.
\<close>

definition jsonwebtoken_sign ::
  "(jwt_payload \<Rightarrow> sign_options \<Rightarrow> string \<Rightarrow> string)
     \<Rightarrow> jwt_payload \<Rightarrow> string \<Rightarrow> sign_options \<Rightarrow> js_error + string" where
  "jsonwebtoken_sign jws p secret opts =
     (if exp p \<noteq> None \<and> expiresIn opts \<noteq> None
      then Inl (Error
        ''Bad \"options.expiresIn\" option the payload already has an \"exp\" property.'')
      else Inr (jws p opts secret))"

text \<open>
  One behaviour of the library parameters, to run the services on concrete inputs: an
  address is accepted when it has an \<open>@\<close>, a hash is the password behind a prefix
  and a password matches exactly the hash made from it, signing issues a token for
  every payload, and no token verifies.
\<close>

definition example_libs :: libs where
  "example_libs =
     \<lparr> joi_email = (\<lambda>s. CHR ''@'' \<in> set s),
       bcrypt_hash = (\<lambda>pw rounds. ''$2b$'' @ pw),
       bcrypt_compare = (\<lambda>pw h. h = ''$2b$'' @ pw),
       jwt_sign = (\<lambda>p secret opts. Inr (''jwt.'' @ userId p)),
       jwt_verify = (\<lambda>tok secret algs now. Inl (Error ''jwt malformed'')) \<rparr>"

text \<open>The environment of the test setup, and the same without a secret.\<close>

definition test_env :: env where
  "test_env = \<lparr> JWT_SECRET = Some ''test-jwt-secret'', JWT_EXPIRES_IN = None,
                BCRYPT_ROUNDS = None \<rparr>"

definition no_secret_env :: env where
  "no_secret_env = \<lparr> JWT_SECRET = None, JWT_EXPIRES_IN = None, BCRYPT_ROUNDS = None \<rparr>"

text \<open>The seeded repository, with two ids standing for the generated ones.\<close>

definition sample_repo :: repo where
  "sample_repo = initializeSampleData ''id-admin'' ''id-user'' 0"

definition seeded_admin :: user where
  "seeded_admin =
     new_User ''id-admin'' 0 ''admin@example.com'' sample_hash ''Admin'' ''User''
       (Some ''admin'') True"

definition seeded_user :: user where
  "seeded_user =
     new_User ''id-user'' 0 ''user@example.com'' sample_hash ''Regular'' ''User''
       (Some ''user'') True"

section \<open>Predicates of the properties\<close>

text \<open>A sanitized error object has exactly the properties message, code, timestamp.\<close>

definition sanitized_error :: "json \<Rightarrow> bool" where
  "sanitized_error e =
     (case e of
        JObj kvs \<Rightarrow> map fst kvs = [''message'', ''code'', ''timestamp'']
      | _ \<Rightarrow> False)"

definition well_formed :: "result \<Rightarrow> bool" where
  "well_formed res = (case res of Success d \<Rightarrow> True | Failure e \<Rightarrow> sanitized_error e)"

text \<open>The timestamps recorded for an address, and those of them inside the window.\<close>

definition recorded :: "(string \<rightharpoonup> int list) \<Rightarrow> string \<Rightarrow> int list" where
  "recorded attempts ip = (case attempts ip of None \<Rightarrow> [] | Some ts \<Rightarrow> ts)"

definition in_window :: "rateLimitOptions \<Rightarrow> int \<Rightarrow> int list \<Rightarrow> int list" where
  "in_window opts now ts = filter (\<lambda>t. now - windowMs_of opts < t) ts"

text \<open>
  The role set of the claim's wording: a required role set extended by the one
  hierarchy rule, that admin satisfies a check that asks for moderator.
\<close>

definition extended_roles :: "string list \<Rightarrow> string set" where
  "extended_roles roles =
     set roles \<union> (if ''moderator'' \<in> set roles then {''admin''} else {})"

text \<open>A registration as in the tests, and the default options of the rate limiter.\<close>

definition john :: profile where
  "john = \<lparr> reg_email = ''newuser@example.com'', reg_password = ''password123'',
            reg_firstName = ''John'', reg_lastName = ''Doe'', reg_role = Some ''user'' \<rparr>"

definition default_options :: rateLimitOptions where
  "default_options = \<lparr> opt_windowMs = None, opt_max = None \<rparr>"

text \<open>
  That registration made while no secret is set: the entity it stores and the store
  it leaves behind.
\<close>

definition registered_john :: user where
  "registered_john =
     new_User ''id-new'' 7 ''newuser@example.com'' ''$2b$password123'' ''John'' ''Doe''
       (Some ''user'') False"

definition registered_repo :: repo where
  "registered_repo = snd (register example_libs no_secret_env sample_repo john ''id-new'' 7)"

text \<open>
  The seeded administrator changes the email of the account, as
  \<open>UserService.updateUser\<close> does through \<open>update\<close> once it has found the new
  address free; then somebody else registers with that address.
\<close>

definition root_update :: updates where
  "root_update = no_updates\<lparr>upd_email := Some ''root@example.com''\<rparr>"

definition renamed_repo :: repo where
  "renamed_repo = snd (update sample_repo ''id-admin'' root_update 9)"

definition renamed_admin :: user where
  "renamed_admin = seeded_admin\<lparr>email := ''root@example.com'', updatedAt := 9\<rparr>"

definition second_root :: user where
  "second_root =
     new_User ''id-new'' 10 ''root@example.com'' ''$2b$password123'' ''John'' ''Doe''
       (Some ''user'') False"

section \<open>Evaluating the examples\<close>

lemma lower_admin: "toLowerCase ''admin@example.com'' = ''admin@example.com''"
  by (simp add: toLowerCase_def lower_char_def)

lemma lower_user: "toLowerCase ''user@example.com'' = ''user@example.com''"
  by (simp add: toLowerCase_def lower_char_def)

lemma lower_nonexistent:
  "toLowerCase ''nonexistent@example.com'' = ''nonexistent@example.com''"
  by (simp add: toLowerCase_def lower_char_def)

lemma lower_root: "toLowerCase ''root@example.com'' = ''root@example.com''"
  by (simp add: toLowerCase_def lower_char_def)

lemma lower_newuser: "toLowerCase ''newuser@example.com'' = ''newuser@example.com''"
  by (simp add: toLowerCase_def lower_char_def)

lemma sample_find_admin: "findByEmail sample_repo ''admin@example.com'' = Some seeded_admin"
  by (simp add: findByEmail_def sample_repo_def initializeSampleData_def store_sample_def
      clear_def new_User_def seeded_admin_def lower_admin lower_user)

lemma sample_find_nonexistent: "findByEmail sample_repo ''nonexistent@example.com'' = None"
  by (simp add: findByEmail_def sample_repo_def initializeSampleData_def store_sample_def
      clear_def new_User_def lower_admin lower_user lower_nonexistent)

lemma sample_find_newuser: "findByEmail sample_repo ''newuser@example.com'' = None"
  by (simp add: findByEmail_def sample_repo_def initializeSampleData_def store_sample_def
      clear_def new_User_def lower_admin lower_user lower_newuser)

lemma sample_users_admin: "users sample_repo ''id-admin'' = Some seeded_admin"
  by (simp add: sample_repo_def initializeSampleData_def store_sample_def clear_def
      new_User_def seeded_admin_def)

lemma sample_index:
  "emailIndex sample_repo =
     [''admin@example.com'' \<mapsto> ''id-admin'', ''user@example.com'' \<mapsto> ''id-user'']"
  by (simp add: sample_repo_def initializeSampleData_def store_sample_def clear_def
      new_User_def lower_admin lower_user)

section \<open>The engine boundary\<close>

lemma executeOperation_returns:
  "\<exists>res. executeOperation x now = Returned res \<and> well_formed res"
  by (cases x) (simp_all add: executeOperation_def well_formed_def sanitized_error_def
      handleError_def)

text \<open>
  C7. Each of \<open>authenticate\<close>, \<open>register\<close> and \<open>refreshToken\<close> returns a result
  envelope, whatever the inputs, the store, the environment and the libraries do: the
  whole body runs inside \<open>executeOperation\<close>, whose \<open>catch\<close> turns every thrown
  error into a failure result. The error object of a failure has exactly the
  properties message, code and timestamp.
\<close>

theorem operations_return_results:
  "(\<exists>res. fst (authenticate L E r em pw now) = Returned res \<and> well_formed res) \<and>
   (\<exists>res. fst (register L E r p newId now) = Returned res \<and> well_formed res) \<and>
   (\<exists>res. fst (refreshToken L E r tok now) = Returned res \<and> well_formed res)"
  by (simp add: authenticate_def register_def refreshToken_def split_beta
      executeOperation_returns)

theorem operations_return_results_witness:
  "fst (refreshToken example_libs test_env sample_repo ''not-a-token'' 5) =
     Returned (Failure (JObj [(''message'', JStr ''jwt malformed''),
                              (''code'', JStr ''INTERNAL_ERROR''),
                              (''timestamp'', JDate 5)]))"
  using operations_return_results [of example_libs test_env sample_repo]
  by (simp add: refreshToken_def refresh_body_def verifyToken_def test_env_def
      example_libs_def executeOperation_def handleError_def Error_def)

section \<open>Credential failures\<close>

lemma authenticate_invalid:
  "\<not> login_valid L em pw \<Longrightarrow>
     authenticate L E r em pw now = (Returned (Failure (handleError invalid_input now)), r)"
  by (simp add: authenticate_def executeOperation_def)

lemma authenticate_missing:
  "login_valid L em pw \<Longrightarrow> findByEmail r em = None \<Longrightarrow>
     authenticate L E r em pw now =
       (Returned (Failure (handleError invalid_credentials now)), r)"
  by (simp add: authenticate_def localStrategy_def executeOperation_def)

lemma authenticate_rejected:
  "login_valid L em pw \<Longrightarrow> findByEmail r em = Some u \<Longrightarrow>
   \<not> isActive u \<or> \<not> comparePassword L pw (password u) \<Longrightarrow>
     authenticate L E r em pw now =
       (Returned (Failure (handleError invalid_credentials now)), r)"
  by (auto simp: authenticate_def localStrategy_def executeOperation_def)

text \<open>
  C3, as the code has it. Take one call whose email belongs to an account that is
  inactive or whose stored hash does not match the submitted password, and another
  call whose email belongs to no account. The input check of \<open>authenticate\<close> (email
  syntax, password of at least 8 characters) comes first and reads only the submitted
  values, never the store. When it gives the two inputs the same verdict, the two
  calls return failure results built from the same error, hence with the same message
  and the same code: \<open>Invalid credentials\<close> with \<open>INTERNAL_ERROR\<close> when both pass,
  \<open>Invalid input data\<close> with \<open>INTERNAL_ERROR\<close> when both fail. Neither call changes
  the store. The two calls may run at different times and against different stores
  and environments.
\<close>

theorem no_enumeration:
  assumes "login_valid L e1 p1 = login_valid L e2 p2"
    and "findByEmail r1 e1 = Some u"
    and "\<not> isActive u \<or> \<not> comparePassword L p1 (password u)"
    and "findByEmail r2 e2 = None"
  shows "authenticate L E1 r1 e1 p1 t1 =
           (Returned (Failure (handleError
              (if login_valid L e1 p1 then invalid_credentials else invalid_input) t1)), r1) \<and>
         authenticate L E2 r2 e2 p2 t2 =
           (Returned (Failure (handleError
              (if login_valid L e1 p1 then invalid_credentials else invalid_input) t2)), r2)"
proof (cases "login_valid L e1 p1")
  case True
  with assms(1) have "login_valid L e2 p2" by simp
  with True assms(2-4) show ?thesis
    by (simp add: authenticate_rejected authenticate_missing)
next
  case False
  with assms(1) have "\<not> login_valid L e2 p2" by simp
  with False show ?thesis by (simp add: authenticate_invalid)
qed

theorem no_enumeration_witness:
  "authenticate example_libs test_env sample_repo ''admin@example.com'' ''wrongpassword'' 5 =
     (Returned (Failure (JObj [(''message'', JStr ''Invalid credentials''),
                               (''code'', JStr ''INTERNAL_ERROR''),
                               (''timestamp'', JDate 5)])), sample_repo) \<and>
   authenticate example_libs test_env sample_repo ''nonexistent@example.com'' ''password123'' 5 =
     (Returned (Failure (JObj [(''message'', JStr ''Invalid credentials''),
                               (''code'', JStr ''INTERNAL_ERROR''),
                               (''timestamp'', JDate 5)])), sample_repo)"
proof -
  have v1: "login_valid example_libs ''admin@example.com'' ''wrongpassword''"
    by (simp add: login_valid_def example_libs_def)
  have v2: "login_valid example_libs ''nonexistent@example.com'' ''password123''"
    by (simp add: login_valid_def example_libs_def)
  have wrong: "\<not> isActive seeded_admin \<or>
      \<not> comparePassword example_libs ''wrongpassword'' (password seeded_admin)"
    by (simp add: comparePassword_def example_libs_def seeded_admin_def new_User_def
        sample_hash_def)
  from v1 v2 have same: "login_valid example_libs ''admin@example.com'' ''wrongpassword'' =
      login_valid example_libs ''nonexistent@example.com'' ''password123''" by simp
  show ?thesis
    using no_enumeration [OF same sample_find_admin wrong sample_find_nonexistent,
        of test_env 5 test_env 5] v1
    by (simp add: handleError_def invalid_credentials_def Error_def)
qed

text \<open>
  The seeded administrator with the wrong password \<open>wrong\<close>, and an unknown address
  with a password of 11 characters: the first call is stopped by the input check, the
  second by the lookup, and the messages differ.
\<close>

theorem no_enumeration_counterexample:
  "findByEmail sample_repo ''admin@example.com'' = Some seeded_admin \<and>
   \<not> comparePassword example_libs ''wrong'' (password seeded_admin) \<and>
   findByEmail sample_repo ''nonexistent@example.com'' = None \<and>
   fst (authenticate example_libs test_env sample_repo ''admin@example.com'' ''wrong'' 5) =
     Returned (Failure (JObj [(''message'', JStr ''Invalid input data''),
                              (''code'', JStr ''INTERNAL_ERROR''),
                              (''timestamp'', JDate 5)])) \<and>
   fst (authenticate example_libs test_env sample_repo ''nonexistent@example.com''
          ''password123'' 5) =
     Returned (Failure (JObj [(''message'', JStr ''Invalid credentials''),
                              (''code'', JStr ''INTERNAL_ERROR''),
                              (''timestamp'', JDate 5)]))"
proof -
  have short: "\<not> login_valid example_libs ''admin@example.com'' ''wrong''"
    by (simp add: login_valid_def)
  have long: "login_valid example_libs ''nonexistent@example.com'' ''password123''"
    by (simp add: login_valid_def example_libs_def)
  have wrong: "\<not> comparePassword example_libs ''wrong'' (password seeded_admin)"
    by (simp add: comparePassword_def example_libs_def seeded_admin_def new_User_def
        sample_hash_def)
  show ?thesis
    by (simp add: sample_find_admin sample_find_nonexistent wrong
        authenticate_invalid [OF short] authenticate_missing [OF long sample_find_nonexistent]
        handleError_def invalid_input_def invalid_credentials_def Error_def)
qed

text \<open>
  C10. A password shorter than 8 characters, or an email the schema refuses, makes
  \<open>authenticate\<close> return the failure \<open>Invalid input data\<close>. The result is the same
  for every store and the store comes back unchanged: the repository is not
  consulted. No such call returns a success, so an account whose password is shorter
  than 8 characters (the seeded \<open>user123\<close>) cannot log in with it.
\<close>

theorem short_password_rejected:
  assumes "length pw < 8 \<or> \<not> joi_email L em"
  shows "authenticate L E r em pw now =
           (Returned (Failure (handleError invalid_input now)), r) \<and>
         fst (authenticate L E r em pw now) \<noteq> Returned (Success d)"
  using assms by (auto simp: authenticate_def login_valid_def executeOperation_def)

theorem short_password_rejected_witness:
  "authenticate example_libs test_env sample_repo ''user@example.com'' ''user123'' 5 =
     (Returned (Failure (JObj [(''message'', JStr ''Invalid input data''),
                               (''code'', JStr ''INTERNAL_ERROR''),
                               (''timestamp'', JDate 5)])), sample_repo)"
proof -
  have short: "length ''user123'' < 8 \<or> \<not> joi_email example_libs ''user@example.com''"
    by simp
  show ?thesis
    using short_password_rejected [OF short, of test_env sample_repo 5]
    by (simp add: handleError_def invalid_input_def Error_def)
qed

section \<open>A missing signing secret\<close>

lemma generateToken_no_secret:
  "missing (JWT_SECRET E) \<Longrightarrow> generateToken L E u now = Inl secret_required"
  by (simp add: generateToken_def missing_def split: option.splits)

lemma verifyToken_no_secret:
  "missing (JWT_SECRET E) \<Longrightarrow> verifyToken L E tok now = Inl secret_required"
  by (simp add: verifyToken_def missing_def split: option.splits)

lemma create_errors:
  "fst (create L r u) = Inl e \<Longrightarrow>
     e = Error ''Invalid user data'' \<or> e = Error ''User with this email already exists''"
  by (auto simp: create_def split: if_splits option.splits)

lemma authenticate_no_secret:
  assumes "missing (JWT_SECRET E)"
  shows "\<exists>e r'. authenticate L E r em pw now = (Returned (Failure (handleError e now)), r') \<and>
           e \<in> {invalid_input, invalid_credentials, secret_required}"
  using assms
  by (auto simp: authenticate_def localStrategy_def executeOperation_def
      generateToken_no_secret Let_def split: option.splits)

lemma register_no_secret:
  assumes "missing (JWT_SECRET E)"
  shows "\<exists>e r'. register L E r p newId now = (Returned (Failure (handleError e now)), r') \<and>
           e \<in> {invalid_input, Error ''Invalid user data'',
                 Error ''User with this email already exists'', secret_required}"
proof (cases "register_valid L p")
  case False
  then show ?thesis
    by (auto simp: register_def register_body_def executeOperation_def)
next
  case True
  let ?u = "new_User newId now (reg_email p) (hashPassword L E (reg_password p))
              (reg_firstName p) (reg_lastName p)
              (Some (case reg_role p of None \<Rightarrow> ''user'' | Some x \<Rightarrow> x)) False"
  obtain c r' where c: "create L r ?u = (c, r')" by (cases "create L r ?u")
  show ?thesis
  proof (cases c)
    case (Inl e)
    with c create_errors [of L r ?u e]
    have "e = Error ''Invalid user data'' \<or> e = Error ''User with this email already exists''"
      by simp
    with True c Inl show ?thesis
      by (auto simp: register_def register_body_def executeOperation_def)
  next
    case (Inr saved)
    with True c assms show ?thesis
      by (auto simp: register_def register_body_def executeOperation_def
          generateToken_no_secret)
  qed
qed

text \<open>
  C2, as the code has it. Without a signing secret (unset or empty), \<open>generateToken\<close>
  and \<open>verifyToken\<close> fail with the error \<open>JWT_SECRET environment variable is
  required\<close>. The engine operations catch it like any other error: \<open>refreshToken\<close>
  returns the failure result made from it and leaves the store alone; \<open>authenticate\<close>
  and \<open>register\<close> return a failure result in every case, never a success and never a
  token, made from the input, credential or duplicate error that came first, or from
  the secret error; a login that passes the credential check returns the failure made
  from the secret error. Nothing travels past the engine boundary.
\<close>

theorem missing_secret_is_a_failure_result:
  assumes "missing (JWT_SECRET E)"
  shows "generateToken L E u now = Inl secret_required \<and>
         verifyToken L E tok now = Inl secret_required \<and>
         refreshToken L E r tok now =
           (Returned (Failure (handleError secret_required now)), r) \<and>
         (\<exists>e r'. authenticate L E r em pw now = (Returned (Failure (handleError e now)), r') \<and>
            e \<in> {invalid_input, invalid_credentials, secret_required}) \<and>
         (\<exists>e r'. register L E r p newId now = (Returned (Failure (handleError e now)), r') \<and>
            e \<in> {invalid_input, Error ''Invalid user data'',
                  Error ''User with this email already exists'', secret_required}) \<and>
         (login_valid L em pw \<and> findByEmail r em = Some v \<and> isActive v \<and>
            comparePassword L pw (password v) \<longrightarrow>
          fst (authenticate L E r em pw now) =
            Returned (Failure (handleError secret_required now)))"
proof -
  have a: "generateToken L E u now = Inl secret_required"
    using assms by (rule generateToken_no_secret)
  have b: "verifyToken L E tok now = Inl secret_required"
    using assms by (rule verifyToken_no_secret)
  have c: "refreshToken L E r tok now =
      (Returned (Failure (handleError secret_required now)), r)"
    by (simp add: refreshToken_def refresh_body_def b executeOperation_def)
  have d: "login_valid L em pw \<and> findByEmail r em = Some v \<and> isActive v \<and>
      comparePassword L pw (password v) \<longrightarrow>
      fst (authenticate L E r em pw now) =
        Returned (Failure (handleError secret_required now))"
    using assms
    by (simp add: authenticate_def localStrategy_def executeOperation_def
        generateToken_no_secret Let_def)
  from a b c d authenticate_no_secret [OF assms] register_no_secret [OF assms]
  show ?thesis by blast
qed

theorem missing_secret_is_a_failure_result_witness:
  "refreshToken example_libs no_secret_env sample_repo ''some.jwt.token'' 5 =
     (Returned (Failure (JObj [(''message'', JStr ''JWT_SECRET environment variable is required''),
                               (''code'', JStr ''INTERNAL_ERROR''),
                               (''timestamp'', JDate 5)])), sample_repo)"
proof -
  have m: "missing (JWT_SECRET no_secret_env)"
    by (simp add: missing_def no_secret_env_def)
  show ?thesis
    using missing_secret_is_a_failure_result
      [OF m, of example_libs _ 5 "''some.jwt.token''" sample_repo]
    by (simp add: handleError_def secret_required_def Error_def)
qed

lemma register_without_secret:
  "register example_libs no_secret_env sample_repo john ''id-new'' 7 =
     (Returned (Failure (handleError secret_required 7)),
      \<lparr> users = (users sample_repo)(''id-new'' \<mapsto> registered_john),
        emailIndex = (emailIndex sample_repo)(''newuser@example.com'' \<mapsto> ''id-new'') \<rparr>)"
proof -
  have valid: "register_valid example_libs john"
    by (simp add: register_valid_def john_def example_libs_def name_ok_def valid_role_def)
  have h: "hashPassword example_libs no_secret_env ''password123'' = ''$2b$password123''"
    by (simp add: hashPassword_def example_libs_def)
  have u: "new_User ''id-new'' 7 ''newuser@example.com'' ''$2b$password123'' ''John'' ''Doe''
      (Some ''user'') False = registered_john"
    by (simp add: registered_john_def)
  have v: "validate example_libs registered_john"
    by (simp add: validate_def registered_john_def new_User_def example_libs_def name_ok_def
        valid_role_def)
  have e: "email registered_john = ''newuser@example.com''"
    and i: "id' registered_john = ''id-new''"
    by (simp_all add: registered_john_def new_User_def)
  have c: "create example_libs sample_repo registered_john =
      (Inr registered_john,
       \<lparr> users = (users sample_repo)(''id-new'' \<mapsto> registered_john),
         emailIndex = (emailIndex sample_repo)(''newuser@example.com'' \<mapsto> ''id-new'') \<rparr>)"
    by (simp add: create_def v e i sample_find_newuser lower_newuser)
  have g: "generateToken example_libs no_secret_env registered_john 7 = Inl secret_required"
    by (simp add: generateToken_def no_secret_env_def)
  have body: "register_body example_libs no_secret_env sample_repo john ''id-new'' 7 =
      (Inl secret_required,
       \<lparr> users = (users sample_repo)(''id-new'' \<mapsto> registered_john),
         emailIndex = (emailIndex sample_repo)(''newuser@example.com'' \<mapsto> ''id-new'') \<rparr>)"
    using valid by (simp add: register_body_def john_def h u c g)
  show ?thesis
    by (simp add: register_def body executeOperation_def)
qed

lemma registered_find_john:
  "findByEmail registered_repo ''newuser@example.com'' = Some registered_john"
  by (simp add: registered_repo_def register_without_secret findByEmail_def lower_newuser)

text \<open>
  No secret is set. A refresh returns an ordinary failure result and throws nothing.
  So does a registration, which stores the new account before it fails, and so does
  the login of that account with the password it was registered with.
\<close>

theorem missing_secret_counterexample:
  "fst (refreshToken example_libs no_secret_env sample_repo ''some.jwt.token'' 5) =
     Returned (Failure (JObj [(''message'', JStr ''JWT_SECRET environment variable is required''),
                              (''code'', JStr ''INTERNAL_ERROR''),
                              (''timestamp'', JDate 5)])) \<and>
   fst (refreshToken example_libs no_secret_env sample_repo ''some.jwt.token'' 5)
     \<noteq> Threw secret_required \<and>
   fst (register example_libs no_secret_env sample_repo john ''id-new'' 7) =
     Returned (Failure (JObj [(''message'', JStr ''JWT_SECRET environment variable is required''),
                              (''code'', JStr ''INTERNAL_ERROR''),
                              (''timestamp'', JDate 7)])) \<and>
   fst (authenticate example_libs no_secret_env registered_repo ''newuser@example.com''
          ''password123'' 8) =
     Returned (Failure (JObj [(''message'', JStr ''JWT_SECRET environment variable is required''),
                              (''code'', JStr ''INTERNAL_ERROR''),
                              (''timestamp'', JDate 8)]))"
proof -
  have b: "fst (refreshToken example_libs no_secret_env sample_repo ''some.jwt.token'' 5) =
      Returned (Failure (handleError secret_required 5))"
    by (simp add: refreshToken_def refresh_body_def verifyToken_def no_secret_env_def
        executeOperation_def)
  have v: "login_valid example_libs ''newuser@example.com'' ''password123''"
    by (simp add: login_valid_def example_libs_def)
  have ok: "isActive registered_john \<and>
      comparePassword example_libs ''password123'' (password registered_john)"
    by (simp add: comparePassword_def example_libs_def registered_john_def new_User_def)
  have g: "generateToken example_libs no_secret_env u 8 = Inl secret_required" for u
    by (simp add: generateToken_def no_secret_env_def)
  have a: "fst (authenticate example_libs no_secret_env registered_repo ''newuser@example.com''
      ''password123'' 8) = Returned (Failure (handleError secret_required 8))"
    using v ok
    by (simp add: authenticate_def localStrategy_def registered_find_john g Let_def
        executeOperation_def)
  show ?thesis
    by (simp add: a b register_without_secret handleError_def secret_required_def Error_def)
qed

section \<open>Role checks\<close>

text \<open>
  C5, as the code has it. For an authenticated request, \<open>requireRoles\<close> lets the
  request through exactly when the user's role is in the declared list; no hierarchy
  rule is applied inside the check. Otherwise it answers 403 with the message
  \<open>Insufficient permissions\<close>, the code \<open>INSUFFICIENT_PERMISSIONS\<close>, the declared
  list as \<open>requiredRoles\<close> and the user's role as \<open>userRole\<close>. The rule that admin
  satisfies moderator-level checks is the list that \<open>requireModerator\<close> declares,
  moderator and admin: for the two checks the routes use, \<open>requireModerator\<close> and
  \<open>requireAdmin\<close>, the request passes exactly when its role is in the level's role
  set extended by that rule. A moderator on an admin-only route gets
  \<open>requiredRoles = ["admin"]\<close> and \<open>userRole = "moderator"\<close>.
\<close>

theorem role_check:
  "(requireRoles roles (Some u) = Next \<longleftrightarrow> role u \<in> set roles) \<and>
   (role u \<notin> set roles \<longrightarrow>
      requireRoles roles (Some u) =
        Respond 403
          (JObj [(''success'', JBool False),
                 (''error'', JObj [(''message'', JStr ''Insufficient permissions''),
                                   (''code'', JStr ''INSUFFICIENT_PERMISSIONS''),
                                   (''requiredRoles'', JArr (map JStr roles)),
                                   (''userRole'', JStr (role u))])])) \<and>
   extended_roles [''moderator''] = {''moderator'', ''admin''} \<and>
   extended_roles [''admin''] = {''admin''} \<and>
   (requireModerator (Some u) = Next \<longleftrightarrow> role u \<in> extended_roles [''moderator'']) \<and>
   (requireAdmin (Some u) = Next \<longleftrightarrow> role u \<in> extended_roles [''admin'']) \<and>
   (role u \<notin> extended_roles [''moderator''] \<longrightarrow>
      requireModerator (Some u) =
        Respond 403
          (JObj [(''success'', JBool False),
                 (''error'', JObj [(''message'', JStr ''Insufficient permissions''),
                                   (''code'', JStr ''INSUFFICIENT_PERMISSIONS''),
                                   (''requiredRoles'', JArr [JStr ''moderator'', JStr ''admin'']),
                                   (''userRole'', JStr (role u))])])) \<and>
   (role u \<notin> extended_roles [''admin''] \<longrightarrow>
      requireAdmin (Some u) =
        Respond 403
          (JObj [(''success'', JBool False),
                 (''error'', JObj [(''message'', JStr ''Insufficient permissions''),
                                   (''code'', JStr ''INSUFFICIENT_PERMISSIONS''),
                                   (''requiredRoles'', JArr [JStr ''admin'']),
                                   (''userRole'', JStr (role u))])]))"
proof -
  have m: "extended_roles [''moderator''] = {''moderator'', ''admin''}"
    by (auto simp: extended_roles_def)
  have a: "extended_roles [''admin''] = {''admin''}"
    by (simp add: extended_roles_def)
  show ?thesis
    unfolding m a
    by (auto simp: requireRoles_def requireModerator_def requireAdmin_def
        insufficient_permissions_def error_body_def)
qed

theorem role_check_witness:
  "requireAdmin (Some (seeded_user\<lparr>role := ''moderator''\<rparr>)) =
     Respond 403
       (JObj [(''success'', JBool False),
              (''error'', JObj [(''message'', JStr ''Insufficient permissions''),
                                (''code'', JStr ''INSUFFICIENT_PERMISSIONS''),
                                (''requiredRoles'', JArr [JStr ''admin'']),
                                (''userRole'', JStr ''moderator'')])]) \<and>
   requireModerator (Some seeded_admin) = Next \<and>
   requireModerator (Some seeded_user) =
     Respond 403
       (JObj [(''success'', JBool False),
              (''error'', JObj [(''message'', JStr ''Insufficient permissions''),
                                (''code'', JStr ''INSUFFICIENT_PERMISSIONS''),
                                (''requiredRoles'', JArr [JStr ''moderator'', JStr ''admin'']),
                                (''userRole'', JStr ''user'')])])"
  using role_check [of "[''admin'']" "seeded_user\<lparr>role := ''moderator''\<rparr>"]
    role_check [of "[]" seeded_admin] role_check [of "[]" seeded_user]
  by (simp add: seeded_admin_def seeded_user_def new_User_def)

text \<open>
  A check that declares moderator alone: admin is in the required set extended by the
  hierarchy rule, and the seeded administrator is refused.
\<close>

theorem role_check_counterexample:
  "role seeded_admin \<in> extended_roles [''moderator''] \<and>
   requireRoles [''moderator''] (Some seeded_admin) =
     Respond 403
       (JObj [(''success'', JBool False),
              (''error'', JObj [(''message'', JStr ''Insufficient permissions''),
                                (''code'', JStr ''INSUFFICIENT_PERMISSIONS''),
                                (''requiredRoles'', JArr [JStr ''moderator'']),
                                (''userRole'', JStr ''admin'')])]) \<and>
   requireRoles [''moderator''] (Some seeded_admin) \<noteq> Next"
  by (simp add: extended_roles_def requireRoles_def insufficient_permissions_def
      error_body_def seeded_admin_def new_User_def)

section \<open>The registration response\<close>

lemma sanitize_public: "sanitizeOutput (toPublicJSON u) = toPublicJSON u"
  by (simp add: sanitizeOutput_def toPublicJSON_def sensitiveFields_def)

lemma keys_auth_result:
  "keys_of (auth_result E u tok) =
     [''user'', ''email'', ''firstName'', ''lastName'', ''role'', ''isEmailVerified'',
      ''lastLoginAt'', ''fullName'', ''token'', ''expiresIn'']"
proof -
  have "keys_of (JObj (toPublicJSON u)) =
      [''email'', ''firstName'', ''lastName'', ''role'', ''isEmailVerified'',
       ''lastLoginAt'', ''fullName'']"
    by (simp add: toPublicJSON_def split: option.splits)
  then show ?thesis by (simp add: auth_result_def sanitize_public)
qed

lemma keys_handleError:
  "keys_of (handleError e now) = [''message'', ''code'', ''timestamp'']"
  by (simp add: handleError_def)

lemma register_body_cases:
  "(\<exists>e. fst (register_body L E r p newId now) = Inl e) \<or>
   (\<exists>u tok. fst (register_body L E r p newId now) = Inr (auth_result E u tok))"
  by (auto simp: register_body_def Let_def split: prod.splits sum.splits)

text \<open>
  C6. Whatever is registered, \<open>register\<close> returns a result in which no object, at any
  depth, has a property named \<open>password\<close> or \<open>passwordHash\<close>. A success carries
  exactly \<open>user\<close>, \<open>token\<close> and \<open>expiresIn\<close>, where \<open>user\<close> is the public
  projection of an entity (email, firstName, lastName, role, isEmailVerified,
  lastLoginAt, fullName); a failure carries the sanitized error.
\<close>

theorem register_hides_password:
  "\<exists>res. fst (register L E r p newId now) = Returned res \<and>
          ''password'' \<notin> set (keys_of (response_json res)) \<and>
          ''passwordHash'' \<notin> set (keys_of (response_json res)) \<and>
          (\<forall>d. res = Success d \<longrightarrow>
             (\<exists>u tok. d = JObj [(''user'', JObj (toPublicJSON u)), (''token'', JStr tok),
                                 (''expiresIn'', JStr (expires_in E))]))"
proof -
  from register_body_cases [of L E r p newId now]
  consider e where "fst (register_body L E r p newId now) = Inl e"
    | u tok where "fst (register_body L E r p newId now) = Inr (auth_result E u tok)"
    by blast
  then show ?thesis
  proof cases
    case 1
    then show ?thesis
      by (simp add: register_def split_beta executeOperation_def response_json_def
          keys_handleError)
  next
    case 2
    then show ?thesis
      by (simp add: register_def split_beta executeOperation_def response_json_def
          keys_auth_result) (auto simp: auth_result_def sanitize_public)
  qed
qed

theorem register_hides_password_witness:
  "fst (register example_libs test_env sample_repo john ''id-new'' 7) =
     Returned (Success (JObj
       [(''user'', JObj [(''email'', JStr ''newuser@example.com''),
                         (''firstName'', JStr ''John''),
                         (''lastName'', JStr ''Doe''),
                         (''role'', JStr ''user''),
                         (''isEmailVerified'', JBool False),
                         (''lastLoginAt'', JNull),
                         (''fullName'', JStr ''John Doe'')]),
        (''token'', JStr ''jwt.id-new''),
        (''expiresIn'', JStr ''24h'')]))"
proof -
  have valid: "register_valid example_libs john"
    by (simp add: register_valid_def john_def example_libs_def name_ok_def valid_role_def)
  have u: "validate example_libs
      (new_User ''id-new'' 7 ''newuser@example.com'' (''$2b$'' @ ''password123'') ''John'' ''Doe''
         (Some ''user'') False)"
    by (simp add: validate_def new_User_def example_libs_def name_ok_def valid_role_def)
  have g: "generateToken example_libs test_env
      (new_User ''id-new'' 7 ''newuser@example.com'' (''$2b$'' @ ''password123'') ''John'' ''Doe''
         (Some ''user'') False) 7 = Inr ''jwt.id-new''"
    by (simp add: generateToken_def test_env_def example_libs_def new_User_def)
  have body: "fst (register_body example_libs test_env sample_repo john ''id-new'' 7) =
      Inr (auth_result test_env
        (new_User ''id-new'' 7 ''newuser@example.com'' (''$2b$'' @ ''password123'') ''John''
           ''Doe'' (Some ''user'') False) ''jwt.id-new'')"
    using valid u g sample_find_newuser
    by (simp add: register_body_def john_def hashPassword_def example_libs_def create_def
        new_User_def Let_def)
  have res: "auth_result test_env
      (new_User ''id-new'' 7 ''newuser@example.com'' (''$2b$'' @ ''password123'') ''John''
         ''Doe'' (Some ''user'') False) ''jwt.id-new'' =
      JObj [(''user'', JObj [(''email'', JStr ''newuser@example.com''),
                             (''firstName'', JStr ''John''),
                             (''lastName'', JStr ''Doe''),
                             (''role'', JStr ''user''),
                             (''isEmailVerified'', JBool False),
                             (''lastLoginAt'', JNull),
                             (''fullName'', JStr ''John Doe'')]),
            (''token'', JStr ''jwt.id-new''),
            (''expiresIn'', JStr ''24h'')]"
    by (simp add: auth_result_def sanitize_public)
      (simp add: toPublicJSON_def new_User_def expires_in_def test_env_def getFullName_def
        trim_def is_space_def)
  have reg: "fst (register example_libs test_env sample_repo john ''id-new'' 7) =
      Returned (Success (auth_result test_env
        (new_User ''id-new'' 7 ''newuser@example.com'' (''$2b$'' @ ''password123'') ''John''
           ''Doe'' (Some ''user'') False) ''jwt.id-new''))"
    by (simp add: register_def split_beta body executeOperation_def)
  show ?thesis
    using register_hides_password [of example_libs test_env sample_repo john "''id-new''" 7]
    unfolding reg res by simp
qed

section \<open>The rate limiter of the authentication routes\<close>

lemma authRateLimit_split:
  "authRateLimit opts a ip now =
     (if max_of opts \<le> int (length (in_window opts now (recorded a ip)))
      then (rate_limit_exceeded (windowMs_of opts), a(ip \<mapsto> in_window opts now (recorded a ip)))
      else (Next, a(ip \<mapsto> in_window opts now (recorded a ip) @ [now])))"
  by (simp add: authRateLimit_def in_window_def recorded_def Let_def split: option.splits)

lemma in_window_all:
  "\<forall>x\<in>set xs. now - windowMs_of opts < x \<Longrightarrow> in_window opts now xs = xs"
  by (simp add: in_window_def)

text \<open>
  A run of accepted requests followed by the one that meets the limit. The timestamps
  already recorded and the new ones all lie inside the window of the last request, so
  no step drops any of them.
\<close>

lemma attempts_then_reject:
  assumes "\<forall>t\<in>set ts. now - windowMs_of opts < t \<and> t \<le> now"
    and "\<forall>x\<in>set xs. now - windowMs_of opts < x"
    and "recorded a ip = xs"
    and "int (length xs + length ts) = max_of opts"
  shows "attempts_from opts a ip (ts @ [now]) =
           (replicate (length ts) Next @ [rate_limit_exceeded (windowMs_of opts)],
            a(ip \<mapsto> xs @ ts))"
  using assms
proof (induction ts arbitrary: a xs)
  case Nil
  then have "authRateLimit opts a ip now =
      (rate_limit_exceeded (windowMs_of opts), a(ip \<mapsto> xs))"
    by (simp add: authRateLimit_split in_window_all)
  then show ?case by (simp add: fun_eq_iff)
next
  case (Cons t ts)
  from Cons.prems(1) have t: "now - windowMs_of opts < t" "t \<le> now" by simp_all
  have "\<forall>x\<in>set xs. t - windowMs_of opts < x"
    using Cons.prems(2) t(2) by auto
  then have win: "in_window opts t (recorded a ip) = xs"
    using Cons.prems(3) by (simp add: in_window_all)
  have room: "\<not> max_of opts \<le> int (length xs)"
    using Cons.prems(4) by simp
  have step: "authRateLimit opts a ip t = (Next, a(ip \<mapsto> xs @ [t]))"
    by (simp add: authRateLimit_split win room)
  have rest: "attempts_from opts (a(ip \<mapsto> xs @ [t])) ip (ts @ [now]) =
      (replicate (length ts) Next @ [rate_limit_exceeded (windowMs_of opts)],
       (a(ip \<mapsto> xs @ [t]))(ip \<mapsto> (xs @ [t]) @ ts))"
  proof (rule Cons.IH)
    show "\<forall>t\<in>set ts. now - windowMs_of opts < t \<and> t \<le> now"
      using Cons.prems(1) by simp
    show "\<forall>x\<in>set (xs @ [t]). now - windowMs_of opts < x"
      using Cons.prems(2) t(1) by auto
    show "recorded (a(ip \<mapsto> xs @ [t])) ip = xs @ [t]"
      by (simp add: recorded_def)
    show "int (length (xs @ [t]) + length ts) = max_of opts"
      using Cons.prems(4) by simp
  qed
  show ?case
    by (simp add: step rest fun_eq_iff)
qed

text \<open>
  C8. The limiter keeps, per source address, the timestamps of the accepted attempts.
  A request is refused, with status 429, code \<open>RATE_LIMIT_EXCEEDED\<close> and
  \<open>retryAfter\<close> = the window in seconds, rounded up, exactly when at least \<open>max\<close> of
  the recorded timestamps of its address are newer than \<open>now - windowMs\<close>; the older
  ones are dropped from the record and do not count, an accepted request is added to
  it, and the records of other addresses are not touched. So when \<open>max\<close> requests of
  a fresh address, all inside the window of a later request, are followed by that
  request, they are all accepted and the later one, the \<open>max + 1\<close>-th, is refused.
\<close>

theorem rate_limit_window:
  "fst (authRateLimit opts a ip now) =
     (if max_of opts \<le> int (length (in_window opts now (recorded a ip)))
      then rate_limit_exceeded (windowMs_of opts) else Next) \<and>
   recorded (snd (authRateLimit opts a ip now)) ip =
     in_window opts now (recorded a ip) @
       (if max_of opts \<le> int (length (in_window opts now (recorded a ip))) then [] else [now]) \<and>
   (\<forall>other. other \<noteq> ip \<longrightarrow> snd (authRateLimit opts a ip now) other = a other) \<and>
   (recorded a ip = [] \<and> int (length ts) = max_of opts \<and>
    (\<forall>t\<in>set ts. now - windowMs_of opts < t \<and> t \<le> now) \<longrightarrow>
      attempts_from opts a ip (ts @ [now]) =
        (replicate (length ts) Next @ [rate_limit_exceeded (windowMs_of opts)],
         a(ip \<mapsto> ts)))"
proof -
  have scenario: "attempts_from opts a ip (ts @ [now]) =
      (replicate (length ts) Next @ [rate_limit_exceeded (windowMs_of opts)], a(ip \<mapsto> ts))"
    if "recorded a ip = []" "int (length ts) = max_of opts"
      "\<forall>t\<in>set ts. now - windowMs_of opts < t \<and> t \<le> now"
    using attempts_then_reject [of ts now opts "[]" a ip] that by simp
  show ?thesis
    using scenario by (simp add: authRateLimit_split recorded_def)
qed

text \<open>
  With the defaults (15 minutes, 5 attempts): five attempts one second apart, then the
  sixth is refused with \<open>retryAfter = 900\<close>; 15 minutes and one second after the first
  attempt, that one has left the window and a request is accepted again.
\<close>

theorem rate_limit_window_witness:
  "attempts_from default_options Map.empty ''127.0.0.1''
     ([1000, 2000, 3000, 4000, 5000] @ [6000]) =
     ([Next, Next, Next, Next, Next,
       Respond 429 (error_body [(''message'', JStr ''Too many authentication attempts''),
                                (''code'', JStr ''RATE_LIMIT_EXCEEDED''),
                                (''retryAfter'', JNum 900)])],
      [''127.0.0.1'' \<mapsto> [1000, 2000, 3000, 4000, 5000]]) \<and>
   fst (authRateLimit default_options
          [''127.0.0.1'' \<mapsto> [1000, 2000, 3000, 4000, 5000]] ''127.0.0.1'' 901000) = Next"
proof -
  have w: "windowMs_of default_options = 900000" and m: "max_of default_options = 5"
    by (simp_all add: windowMs_of_def max_of_def default_options_def)
  have pre: "recorded Map.empty ''127.0.0.1'' = [] \<and>
      int (length [1000, 2000, 3000, 4000, 5000 :: int]) = max_of default_options \<and>
      (\<forall>t\<in>set [1000, 2000, 3000, 4000, 5000].
         6000 - windowMs_of default_options < t \<and> t \<le> 6000)"
    by (simp add: recorded_def w m)
  have old: "in_window default_options 901000 [1000, 2000, 3000, 4000, 5000] =
      [2000, 3000, 4000, 5000]"
    by (simp add: in_window_def w)
  show ?thesis
    using rate_limit_window [of default_options Map.empty "''127.0.0.1''" 6000
        "[1000, 2000, 3000, 4000, 5000]"]
      rate_limit_window [of default_options "[''127.0.0.1'' \<mapsto> [1000, 2000, 3000, 4000, 5000]]"
        "''127.0.0.1''" 901000 "[]"]
      pre
    by (simp add: w m rate_limit_exceeded_def recorded_def old)
qed

section \<open>Issuing a token\<close>

text \<open>What \<open>generateToken\<close> hands to \<open>jwt.sign\<close> when a secret is set.\<close>

lemma generateToken_call:
  "generateToken L (E\<lparr>JWT_SECRET := Some (c # cs)\<rparr>) u now =
     jwt_sign L
       \<lparr> userId = id' u, emailClaim = email u, roleClaim = role u,
         iat = Some (now div 1000), exp = Some (now div 1000 + 86400) \<rparr>
       (c # cs)
       \<lparr> expiresIn = Some (expires_in E), algorithm = Some ''HS256'' \<rparr>"
  by (simp add: generateToken_def expires_in_def)

text \<open>
  C1. The claim is that a token issued for an identity verifies at once, with the
  identity's id, email and role, and no longer after 24 hours. \<open>generateToken\<close>
  writes \<open>exp\<close> into the payload and passes \<open>expiresIn\<close> as well; with the check
  jsonwebtoken makes on this pair, \<open>sign\<close> throws for every user, every time and
  every non-empty secret, so no token is issued that could be verified.
\<close>

theorem generateToken_sign_rejected:
  "generateToken (L\<lparr>jwt_sign := jsonwebtoken_sign jws\<rparr>) (E\<lparr>JWT_SECRET := Some (c # cs)\<rparr>) u now =
     Inl (Error ''Bad \"options.expiresIn\" option the payload already has an \"exp\" property.'')"
  by (simp add: generateToken_def jsonwebtoken_sign_def)

section \<open>The email index\<close>

lemma update_result:
  "update sample_repo ''id-admin'' root_update 9 =
     (Some renamed_admin,
      \<lparr> users = (users sample_repo)(''id-admin'' \<mapsto> renamed_admin),
        emailIndex = emailIndex sample_repo \<rparr>)"
  by (simp add: update_def findById_def sample_users_admin root_update_def no_updates_def
      assign_updates_def touch_def renamed_admin_def seeded_admin_def new_User_def Let_def)

lemma renamed_repo_eq:
  "renamed_repo =
     \<lparr> users = (users sample_repo)(''id-admin'' \<mapsto> renamed_admin),
       emailIndex = emailIndex sample_repo \<rparr>"
  by (simp add: renamed_repo_def update_result)

text \<open>
  \<open>update\<close> never changes the index: once the properties are assigned, the new email
  is the entity's email, and the test that guards the index update is false.
\<close>

lemma update_keeps_index: "emailIndex (snd (update r i upd now)) = emailIndex r"
  by (simp add: update_def assign_updates_def touch_def Let_def split: option.splits)

text \<open>
  C9. The claim is that after any create, update and delete, every stored user is
  found under the current email and no other email finds anybody. After \<open>update\<close>
  has changed the email of the seeded administrator to \<open>root@example.com\<close>, the
  entity carries the new email, a lookup of the new email finds nobody, and a lookup
  of the old email still returns the entity.
\<close>

theorem email_index_stale_after_update:
  "fst (update sample_repo ''id-admin'' root_update 9) = Some renamed_admin \<and>
   findById renamed_repo ''id-admin'' = Some renamed_admin \<and>
   email renamed_admin = ''root@example.com'' \<and>
   findByEmail renamed_repo ''root@example.com'' = None \<and>
   findByEmail renamed_repo ''admin@example.com'' = Some renamed_admin"
  by (simp add: update_result renamed_repo_eq findById_def findByEmail_def sample_index
      lower_root lower_admin)
    (simp add: renamed_admin_def seeded_admin_def new_User_def)

text \<open>
  Where the index does hold the email, \<open>create\<close> refuses a second user whose email
  differs at most in letter case, and an error of \<open>create\<close> leaves the store as it was.
\<close>

lemma create_duplicate_rejected:
  assumes "validate L u" and "findByEmail r em = Some existing"
    and "toLowerCase (email u) = toLowerCase em"
  shows "create L r u = (Inl (Error ''User with this email already exists''), r)"
  using assms by (simp add: create_def findByEmail_def)

lemma create_leaves_store_on_error:
  "fst (create L r u) = Inl e \<Longrightarrow> snd (create L r u) = r"
  by (auto simp: create_def split: if_splits option.splits)

text \<open>
  C4. The claim is that in every store state that holds an identity with email \<open>e\<close>,
  a registration with an email that lower-cases to \<open>e\<close> fails and leaves the store
  unchanged. In the store in which the administrator's email has been changed to
  \<open>root@example.com\<close>, \<open>create\<close> accepts a second user with that very email and
  stores it: two identities then carry the same email.
\<close>

theorem duplicate_email_after_update:
  "create example_libs renamed_repo second_root =
     (Inr second_root,
      \<lparr> users = (users renamed_repo)(''id-new'' \<mapsto> second_root),
        emailIndex = (emailIndex renamed_repo)(''root@example.com'' \<mapsto> ''id-new'') \<rparr>) \<and>
   findById renamed_repo ''id-admin'' = Some renamed_admin \<and>
   email renamed_admin = email second_root"
proof -
  have v: "validate example_libs second_root"
    by (simp add: validate_def second_root_def new_User_def example_libs_def name_ok_def
        valid_role_def)
  have f: "findByEmail renamed_repo ''root@example.com'' = None"
    by (simp add: renamed_repo_eq findByEmail_def sample_index lower_root)
  have e: "email second_root = ''root@example.com''" and i: "id' second_root = ''id-new''"
    by (simp_all add: second_root_def new_User_def)
  have c: "create example_libs renamed_repo second_root =
     (Inr second_root,
      \<lparr> users = (users renamed_repo)(''id-new'' \<mapsto> second_root),
        emailIndex = (emailIndex renamed_repo)(''root@example.com'' \<mapsto> ''id-new'') \<rparr>)"
    by (simp add: create_def v e i f lower_root)
  have a: "findById renamed_repo ''id-admin'' = Some renamed_admin"
    by (simp add: renamed_repo_eq findById_def)
  have "email renamed_admin = ''root@example.com''"
    by (simp add: renamed_admin_def)
  with c a e show ?thesis by simp
qed

end
